theory Spec2Isabelle
  imports Complex_Main
begin

section \<open>Strings\<close>

text \<open>
  The strings of the application are Python \<open>str\<close> values. The model takes them over
  the code points below 256, one \<open>char\<close> per code point.

  \<open>str.lower()\<close> maps \<open>A\<close>..\<open>Z\<close> (65..90) and the capital letters at 192..214 and
  216..222 to the code point 32 above, and leaves every other code point below 256
  alone.
\<close>

definition is_upper :: "char \<Rightarrow> bool" where
  "is_upper c \<longleftrightarrow>
     (65 \<le> (of_char c :: nat) \<and> (of_char c :: nat) \<le> 90) \<or>
     (192 \<le> (of_char c :: nat) \<and> (of_char c :: nat) \<le> 214) \<or>
     (216 \<le> (of_char c :: nat) \<and> (of_char c :: nat) \<le> 222)"

definition lower_char :: "char \<Rightarrow> char" where
  "lower_char c = (if is_upper c then char_of ((of_char c :: nat) + 32) else c)"

definition str_lower :: "string \<Rightarrow> string" where
  "str_lower s = map lower_char s"

text \<open>
  \<open>str.strip()\<close> with no argument removes the leading and the trailing white space.
  The code points below 256 for which \<open>str.isspace\<close> holds are 9..13, 28..32, 133
  and 160.
\<close>

definition is_space :: "char \<Rightarrow> bool" where
  "is_space c \<longleftrightarrow>
     (9 \<le> (of_char c :: nat) \<and> (of_char c :: nat) \<le> 13) \<or>
     (28 \<le> (of_char c :: nat) \<and> (of_char c :: nat) \<le> 32) \<or>
     (of_char c :: nat) = 133 \<or> (of_char c :: nat) = 160"

definition str_strip :: "string \<Rightarrow> string" where
  "str_strip s = rev (dropWhile is_space (rev (dropWhile is_space s)))"

text \<open>
  \<open>Series.replace(d)\<close> with a dictionary \<open>d\<close> replaces a value that is a key of \<open>d\<close>
  by the value stored under it and keeps every other value.
\<close>

definition series_replace :: "(string \<times> string) list \<Rightarrow> string \<Rightarrow> string" where
  "series_replace d v = (case map_of d v of Some w \<Rightarrow> w | None \<Rightarrow> v)"

section \<open>Data frames\<close>

text \<open>
  A column has one of the dtypes the application builds: \<open>int64\<close>, \<open>float64\<close>, or
  \<open>object\<close> holding strings. A frame is the list of its named columns, in column order.
\<close>

datatype column = IntCol "int list" | FloatCol "real list" | StrCol "string list"

type_synonym dataframe = "(string \<times> column) list"

text \<open>
  The exceptions are the instances of Python's \<open>Exception\<close> that the code can meet:
  those that the libraries raise for the calls the script makes, and
  \<open>RaisedByArtifact\<close> for whatever the artifact's own code or its deserialization
  raises, with its text. These are what a handler \<open>except Exception\<close> catches; an
  interrupt of the interpreter is no part of the model.
\<close>

datatype py_exception =
    KeyError string
  | AttributeError
  | IndexError
  | ValueError
  | FileNotFoundError
  | StreamlitAPIException
  | RaisedByArtifact string

text \<open>\<open>X[name]\<close> raises \<open>KeyError\<close> when the frame has no such column.\<close>

definition get_column :: "dataframe \<Rightarrow> string \<Rightarrow> py_exception + column" where
  "get_column X name = (case map_of X name of None \<Rightarrow> Inl (KeyError name) | Some c \<Rightarrow> Inr c)"

text \<open>
  \<open>X[name] = c\<close> replaces the column of that name where it stands, and appends a new
  column when there is none.
\<close>

fun set_column :: "dataframe \<Rightarrow> string \<Rightarrow> column \<Rightarrow> dataframe" where
  "set_column [] name c = [(name, c)]"
| "set_column ((k, v) # X) name c =
     (if k = name then (k, c) # X else (k, v) # set_column X name c)"

text \<open>
  The \<open>.str\<close> accessor exists on a column of strings only; on a numeric column it
  raises \<open>AttributeError\<close>. Its methods work element by element.
\<close>

definition str_accessor :: "column \<Rightarrow> py_exception + string list" where
  "str_accessor c = (case c of StrCol vs \<Rightarrow> Inr vs | _ \<Rightarrow> Inl AttributeError)"

text \<open>
  The chain of \<open>clean_famhist\<close> on one value of the column:
  \<open>.str.strip().str.lower().replace({"present": "present", "absent": "absent"})\<close>.
\<close>

definition clean_value :: "string \<Rightarrow> string" where
  "clean_value v =
     series_replace [(''present'', ''present''), (''absent'', ''absent'')]
       (str_lower (str_strip v))"

text \<open>
  Frames are objects: a variable holds a reference into a store of frames, and
  \<open>X.copy()\<close> allocates a new frame with the same contents. A reference is an index
  into the store; every reference a Python program holds is below the store's length.
\<close>

type_synonym store = "dataframe list"
type_synonym ref = nat

definition frame_copy :: "store \<Rightarrow> ref \<Rightarrow> store \<times> ref" where
  "frame_copy s r = (s @ [s ! r], length s)"

text \<open>
  \<open>clean_famhist(X)\<close>: rebinds \<open>X\<close> to a copy, computes the cleaned column from the
  copy's \<open>famhist\<close> column, assigns it in the copy and returns the copy. An exception
  leaves the copy allocated and returns nothing.
\<close>

definition clean_famhist :: "store \<Rightarrow> ref \<Rightarrow> store \<times> (py_exception + ref)" where
  "clean_famhist s X =
     (let (s1, X1) = frame_copy s X in
      case get_column (s1 ! X1) ''famhist'' of
        Inl e \<Rightarrow> (s1, Inl e)
      | Inr c \<Rightarrow>
          (case str_accessor c of
             Inl e \<Rightarrow> (s1, Inl e)
           | Inr vs \<Rightarrow>
               (s1[X1 := set_column (s1 ! X1) ''famhist'' (StrCol (map clean_value vs))],
                Inr X1)))"

section \<open>What the page shows\<close>

text \<open>
  The calls into the page-rendering library are recorded in the order the script makes
  them. A text that the script formats from a value carries that value: \<open>Percent x\<close> is
  \<open>x\<close> formatted by \<open>:.1%\<close>, and a message built by an f-string carries what it
  interpolates. The floats of the script are taken as real numbers; the script compares
  and selects them and does no arithmetic on them.

  The messages are, in the order of the constructors: the error of \<open>load_model\<close> for
  a missing file, with the path; its error for an exception, with the exception; the
  error of the handler of the prediction, with the exception; the alert for a
  prediction equal to 1 and the one for any other prediction, each with the probability
  at index 1. The static texts are the title, the introduction, a rule \<open>---\<close>, the
  headings of the form, of the results and of the risk level, and the footer.
\<close>

datatype metric_label = Prediction | Probabilite_CHD | Confiance

datatype metric_value = Risque_Eleve | Risque_Faible | Percent real

datatype message =
    Fichier_Introuvable string
  | Erreur_Chargement py_exception
  | Erreur_Prediction py_exception
  | Risque_Eleve_Detecte real
  | Risque_Faible_Message real

datatype static_text = Title | Intro | Rule | Patient_Heading | Results_Heading
  | Risk_Level_Heading | Footer

datatype ui_event =
    St_error message
  | St_success message
  | St_metric metric_label metric_value
  | St_progress real
  | St_spinner
  | St_form
  | St_text static_text

section \<open>The process\<close>

text \<open>
  The model artifact is an object of a class that the artifact brings with it; the
  application knows two of its methods. A method gets the object's state and the frame,
  and gives the object's state after the call and either the exception it raised or the
  array it returned: the labels of the rows from \<open>predict\<close>, and for each row its
  vector of class probabilities from \<open>predict_proba\<close>.
\<close>

record 'h model_class =
  predict :: "'h \<Rightarrow> dataframe \<Rightarrow> 'h \<times> (py_exception + int list)"
  predict_proba :: "'h \<Rightarrow> dataframe \<Rightarrow> 'h \<times> (py_exception + real list list)"

datatype model_call = Predict dataframe | Predict_proba dataframe

text \<open>
  A file either cannot be deserialized, and \<open>joblib.load\<close> raises, or holds a pickled
  value: an object, or \<open>None\<close>. The disk maps a path to the file there, if any.
\<close>

datatype 'h artifact = Corrupt py_exception | Serialized "'h option"

type_synonym 'h disk = "string \<Rightarrow> 'h artifact option"

text \<open>
  The state of the process: the objects that deserialization has made (a reference to
  one is its index), the entry of \<open>st.cache_resource\<close> for \<open>load_model\<close> (the
  value it returned and the page elements it showed), the number of times the artifact
  was read, the method calls made on model objects, and the page.
\<close>

type_synonym obj_ref = nat

record 'h world =
  objects :: "'h list"
  cache :: "(obj_ref option \<times> ui_event list) option"
  disk_reads :: nat
  calls :: "model_call list"
  page :: "ui_event list"

definition render :: "ui_event list \<Rightarrow> 'h world \<Rightarrow> 'h world" where
  "render es w = w\<lparr>page := page w @ es\<rparr>"

section \<open>Loading the model\<close>

definition model_path :: string where
  "model_path = ''Model3.pkl''"

definition os_path_exists :: "'h disk \<Rightarrow> string \<Rightarrow> bool" where
  "os_path_exists d p \<longleftrightarrow> d p \<noteq> None"

text \<open>
  \<open>joblib.load(path)\<close> reads the file. A pickled object becomes a new object of the
  process; \<open>None\<close> for a pickled \<open>None\<close>.
\<close>

definition joblib_load :: "'h disk \<Rightarrow> string \<Rightarrow> 'h world \<Rightarrow> 'h world \<times> (py_exception + obj_ref option)" where
  "joblib_load d p w =
     (case d p of
        None \<Rightarrow> (w, Inl FileNotFoundError)
      | Some (Corrupt e) \<Rightarrow> (w\<lparr>disk_reads := disk_reads w + 1\<rparr>, Inl e)
      | Some (Serialized None) \<Rightarrow> (w\<lparr>disk_reads := disk_reads w + 1\<rparr>, Inr None)
      | Some (Serialized (Some h)) \<Rightarrow>
          (w\<lparr>disk_reads := disk_reads w + 1, objects := objects w @ [h]\<rparr>,
           Inr (Some (length (objects w)))))"

text \<open>The body of the \<open>try\<close> in \<open>load_model\<close>: \<open>Inl\<close> is an exception raised in it.\<close>

definition load_model_try :: "'h disk \<Rightarrow> 'h world \<Rightarrow> 'h world \<times> (py_exception + obj_ref option)" where
  "load_model_try d w =
     (if \<not> os_path_exists d model_path
      then (render [St_error (Fichier_Introuvable model_path)] w, Inr None)
      else (case joblib_load d model_path w of
              (w', Inl e) \<Rightarrow> (w', Inl e)
            | (w', Inr model) \<Rightarrow> (w', Inr model)))"

text \<open>
  The function \<open>load_model\<close> as written, without its decorator: the \<open>try\<close> with its
  handler. \<open>Inl\<close> in the result would be an exception that leaves the function.
\<close>

definition load_model_fn :: "'h disk \<Rightarrow> 'h world \<Rightarrow> 'h world \<times> (py_exception + obj_ref option)" where
  "load_model_fn d w =
     (case load_model_try d w of
        (w', Inl e) \<Rightarrow> (render [St_error (Erreur_Chargement e)] w', Inr None)
      | (w', Inr model) \<Rightarrow> (w', Inr model))"

text \<open>
  \<open>load_model\<close> as the script calls it, under \<open>@st.cache_resource\<close>: with an entry
  in the cache the function does not run, the stored value is returned as it is and the
  stored page elements are shown again; without one the function runs, and what it
  returned and showed is stored. An exception is not stored.
\<close>

definition load_model :: "'h disk \<Rightarrow> 'h world \<Rightarrow> 'h world \<times> (py_exception + obj_ref option)" where
  "load_model d w =
     (case cache w of
        Some (model, shown) \<Rightarrow> (render shown w, Inr model)
      | None \<Rightarrow>
          (case load_model_fn d w of
             (w', Inl e) \<Rightarrow> (w', Inl e)
           | (w', Inr model) \<Rightarrow>
               (w'\<lparr>cache := Some (model, drop (length (page w)) (page w'))\<rparr>, Inr model)))"

text \<open>Calls of the loader, one after the other, each seeing the disk of its moment.\<close>

fun load_model_calls :: "'h disk list \<Rightarrow> 'h world \<Rightarrow> 'h world \<times> (py_exception + obj_ref option) list" where
  "load_model_calls [] w = (w, [])"
| "load_model_calls (d # ds) w =
     (let (w1, r) = load_model d w; (w2, rs) = load_model_calls ds w1 in (w2, r # rs))"

section \<open>The form and the prediction\<close>

record form =
  sbp :: int
  ldl :: real
  adiposity :: int
  obesity :: real
  age :: int
  famhist :: string





definition input_data :: "form \<Rightarrow> dataframe" where
  "input_data f =
     [(''sbp'', IntCol [sbp f]),
      (''ldl'', FloatCol [ldl f]),
      (''adiposity'', IntCol [adiposity f]),
      (''famhist'', StrCol [str_lower (famhist f)]),
      (''obesity'', FloatCol [obesity f]),
      (''age'', IntCol [age f])]"

text \<open>\<open>a[i]\<close> on an array, for \<open>i\<close> not negative: \<open>IndexError\<close> out of range.\<close>

definition index :: "'a list \<Rightarrow> nat \<Rightarrow> py_exception + 'a" where
  "index xs i = (if i < length xs then Inr (xs ! i) else Inl IndexError)"

text \<open>The builtin \<open>max\<close> of an iterable: \<open>ValueError\<close> when it is empty.\<close>

definition py_max :: "real list \<Rightarrow> py_exception + real" where
  "py_max xs = (case xs of [] \<Rightarrow> Inl ValueError | x # ys \<Rightarrow> Inr (fold max ys x))"

text \<open>A method call on the model object: it is logged, and the object keeps the state
  the method left.\<close>

definition call_predict ::
  "'h model_class \<Rightarrow> obj_ref \<Rightarrow> dataframe \<Rightarrow> 'h world \<Rightarrow> 'h world \<times> (py_exception + int list)" where
  "call_predict cls model X w =
     (let (h, r) = predict cls (objects w ! model) X
      in (w\<lparr>objects := (objects w)[model := h], calls := calls w @ [Predict X]\<rparr>, r))"

definition call_predict_proba ::
  "'h model_class \<Rightarrow> obj_ref \<Rightarrow> dataframe \<Rightarrow> 'h world \<Rightarrow> 'h world \<times> (py_exception + real list list)" where
  "call_predict_proba cls model X w =
     (let (h, r) = predict_proba cls (objects w ! model) X
      in (w\<lparr>objects := (objects w)[model := h], calls := calls w @ [Predict_proba X]\<rparr>, r))"

text \<open>\<open>st.progress(v)\<close> with a float raises unless \<open>0.0 <= v <= 1.0\<close>.\<close>

definition st_progress :: "real \<Rightarrow> 'h world \<Rightarrow> 'h world \<times> (py_exception + unit)" where
  "st_progress v w =
     (if 0 \<le> v \<and> v \<le> 1 then (render [St_progress v] w, Inr ())
      else (w, Inl StreamlitAPIException))"

text \<open>The body of the \<open>try\<close> of the prediction, up to the first exception.\<close>

definition predict_try ::
  "'h model_class \<Rightarrow> obj_ref \<Rightarrow> dataframe \<Rightarrow> 'h world \<Rightarrow> 'h world \<times> (py_exception + unit)" where
  "predict_try cls model X w =
     (case call_predict cls model X (render [St_spinner] w) of
        (w1, Inl e) \<Rightarrow> (w1, Inl e)
      | (w1, Inr predictions) \<Rightarrow>
     (case index predictions 0 of
        Inl e \<Rightarrow> (w1, Inl e)
      | Inr prediction \<Rightarrow>
     (case call_predict_proba cls model X w1 of
        (w2, Inl e) \<Rightarrow> (w2, Inl e)
      | (w2, Inr probas) \<Rightarrow>
     (case index probas 0 of
        Inl e \<Rightarrow> (w2, Inl e)
      | Inr proba \<Rightarrow>
     (case index proba 1 of
        Inl e \<Rightarrow> (w2, Inl e)
      | Inr proba_chd \<Rightarrow>
     (let w3 = render
            [St_text Rule, St_text Results_Heading,
             St_metric Prediction (if prediction = 1 then Risque_Eleve else Risque_Faible),
             St_metric Probabilite_CHD (Percent proba_chd)] w2
      in case py_max proba of
        Inl e \<Rightarrow> (w3, Inl e)
      | Inr confidence \<Rightarrow>
          st_progress proba_chd
            (render
               [St_metric Confiance (Percent confidence),
                if prediction = 1 then St_error (Risque_Eleve_Detecte proba_chd)
                else St_success (Risque_Faible_Message proba_chd),
                St_text Risk_Level_Heading] w3)))))))"

text \<open>
  The block under \<open>if submitted\<close>: the frame, the \<open>try\<close>, and its handler. \<open>Inl\<close> in
  the result would be an exception that leaves the block.
\<close>

definition predict_section ::
  "'h model_class \<Rightarrow> obj_ref \<Rightarrow> form \<Rightarrow> 'h world \<Rightarrow> 'h world \<times> (py_exception + unit)" where
  "predict_section cls model f w =
     (case predict_try cls model (input_data f) w of
        (w', Inl e) \<Rightarrow> (render [St_error (Erreur_Prediction e)] w', Inr ())
      | (w', Inr u) \<Rightarrow> (w', Inr u))"

text \<open>
  One run of the script on a fresh page. \<open>st.stop()\<close> ends the run when the loader
  gave \<open>None\<close>. \<open>Inl\<close> in the result would be an exception that ends the run.
\<close>

definition run_script ::
  "'h model_class \<Rightarrow> 'h disk \<Rightarrow> form \<Rightarrow> bool \<Rightarrow> 'h world \<Rightarrow> 'h world \<times> (py_exception + unit)" where
  "run_script cls d f submitted w =
     (case load_model d (render [St_text Title, St_text Intro] (w\<lparr>page := []\<rparr>)) of
        (w1, Inl e) \<Rightarrow> (w1, Inl e)
      | (w1, Inr None) \<Rightarrow> (w1, Inr ())
      | (w1, Inr (Some model)) \<Rightarrow>
          (let w2 = render [St_text Patient_Heading, St_form] w1 in
           case (if submitted then predict_section cls model f w2 else (w2, Inr ())) of
             (w3, Inl e) \<Rightarrow> (w3, Inl e)
           | (w3, Inr u) \<Rightarrow> (render [St_text Rule, St_text Footer] w3, Inr ())))"

section \<open>Concrete processes\<close>

text \<open>The process at its start: nothing deserialized, nothing cached, nothing shown.\<close>

definition fresh_process :: "'h world" where
  "fresh_process = \<lparr>objects = [], cache = None, disk_reads = 0, calls = [], page = []\<rparr>"

text \<open>A disk with the given file at the model's path, and a disk without it.\<close>

definition disk_with :: "'h artifact \<Rightarrow> 'h disk" where
  "disk_with a = (\<lambda>p. if p = model_path then Some a else None)"

definition empty_disk :: "'h disk" where
  "empty_disk = (\<lambda>p. None)"

text \<open>A process that holds one deserialized model object, at reference 0.\<close>

definition loaded_process :: "'h \<Rightarrow> 'h world" where
  "loaded_process h = \<lparr>objects = [h], cache = Some (Some 0, []), disk_reads = 1, calls = [], page = []\<rparr>"

text \<open>
  A model class without state whose methods return the same arrays for every frame,
  and one whose \<open>predict\<close> raises.
\<close>

definition constant_class :: "int list \<Rightarrow> real list list \<Rightarrow> unit model_class" where
  "constant_class ps rows =
     \<lparr>predict = (\<lambda>h X. (h, Inr ps)), predict_proba = (\<lambda>h X. (h, Inr rows))\<rparr>"

definition raising_class :: "py_exception \<Rightarrow> unit model_class" where
  "raising_class e =
     \<lparr>predict = (\<lambda>h X. (h, Inl e)), predict_proba = (\<lambda>h X. (h, Inr [ [1, 0] ]))\<rparr>"

text \<open>The form as it stands when nothing was changed: every widget at its default.\<close>

definition default_form :: form where
  "default_form =
     \<lparr>sbp = 138, ldl = 440, adiposity = 2326, obesity = 2373, age = 43, famhist = ''Present''\<rparr>"



text \<open>A frame with two rows, one of them with a \<open>famhist\<close> the model was not trained on.\<close>

definition two_patients :: dataframe where
  "two_patients =
     [(''age'', IntCol [43, 61]),
      (''famhist'', StrCol [''  Present '', ''unknown'']),
      (''sbp'', IntCol [138, 120])]"

section \<open>Shorthand for the state after a prediction\<close>

text \<open>
  The process after method calls on the model object: the object in its new state, the
  calls logged, the new page elements shown.
\<close>

abbreviation after ::
  "'h world \<Rightarrow> obj_ref \<Rightarrow> 'h \<Rightarrow> model_call list \<Rightarrow> ui_event list \<Rightarrow> 'h world" where
  "after w model h cs es \<equiv>
     w\<lparr>objects := (objects w)[model := h], calls := calls w @ cs, page := page w @ es\<rparr>"

text \<open>What the prediction shows before the progress bar, for a label and its vector.\<close>

abbreviation shown_result :: "int \<Rightarrow> real list \<Rightarrow> ui_event list" where
  "shown_result prediction proba \<equiv>
     [St_spinner, St_text Rule, St_text Results_Heading,
      St_metric Prediction (if prediction = 1 then Risque_Eleve else Risque_Faible),
      St_metric Probabilite_CHD (Percent (proba ! 1)),
      St_metric Confiance (Percent (Max (set proba))),
      if prediction = 1 then St_error (Risque_Eleve_Detecte (proba ! 1))
      else St_success (Risque_Faible_Message (proba ! 1)),
      St_text Risk_Level_Heading]"

section \<open>Properties of the string operations\<close>

lemma lower_char_not_upper: "\<not> is_upper (lower_char c)"
  by (auto simp: lower_char_def is_upper_def)

lemma lower_char_idem: "lower_char (lower_char c) = lower_char c"
  using lower_char_not_upper [of c] by (simp add: lower_char_def [of "lower_char c"])

lemma str_lower_idem: "str_lower (str_lower s) = str_lower s"
  by (simp add: str_lower_def lower_char_idem)

lemma is_space_lower_char: "is_space (lower_char c) = is_space c"
  by (auto simp: lower_char_def is_upper_def is_space_def)

lemma dropWhile_space_lower:
  "dropWhile is_space (map lower_char xs) = map lower_char (dropWhile is_space xs)"
  by (induction xs) (simp_all add: is_space_lower_char)

lemma str_strip_lower: "str_strip (str_lower s) = str_lower (str_strip s)"
  by (simp add: str_strip_def str_lower_def rev_map dropWhile_space_lower)

lemma dropWhile_fixed: "xs = [] \<or> \<not> P (hd xs) \<Longrightarrow> dropWhile P xs = xs"
  by (cases xs) auto

text \<open>What is left after dropping at the back of a list that starts with no \<open>P\<close> starts
  with no \<open>P\<close> either.\<close>

lemma dropWhile_trimmed:
  "dropWhile P (rev (dropWhile P (rev (dropWhile P s)))) = rev (dropWhile P (rev (dropWhile P s)))"
proof -
  define t where "t = dropWhile P s"
  define u where "u = rev (dropWhile P (rev t))"
  have split: "t = u @ rev (takeWhile P (rev t))"
  proof -
    have "rev (takeWhile P (rev t) @ dropWhile P (rev t)) = t" by simp
    then have "rev (dropWhile P (rev t)) @ rev (takeWhile P (rev t)) = t"
      by (simp only: rev_append)
    then show ?thesis by (simp only: u_def)
  qed
  have "dropWhile P u = u"
  proof (cases "u = []")
    case True
    then show ?thesis by simp
  next
    case False
    with split have "hd u = hd t" and "t \<noteq> []"
      by (metis hd_append2, metis append_is_Nil_conv)
    moreover from \<open>t \<noteq> []\<close> have "\<not> P (hd t)"
      unfolding t_def by (rule hd_dropWhile)
    ultimately show ?thesis by (simp add: dropWhile_fixed)
  qed
  then show ?thesis by (simp add: u_def t_def)
qed

lemma str_strip_idem: "str_strip (str_strip s) = str_strip s"
  by (simp add: str_strip_def dropWhile_trimmed)

lemma series_replace_same:
  "series_replace [(''present'', ''present''), (''absent'', ''absent'')] v = v"
  by (simp add: series_replace_def)

lemma clean_value_eq: "clean_value v = str_lower (str_strip v)"
  by (simp add: clean_value_def series_replace_same)





section \<open>Cleaning the family history\<close>

text \<open>
  Claim C8. The normalization of \<open>famhist\<close>, the chain that \<open>clean_famhist\<close> applies to
  each value of the column, is idempotent: normalizing a normalized value gives it back.
  This holds for every string, so for every casing and white space variant of
  "present" and "absent".
\<close>

theorem clean_value_idempotent: "clean_value (clean_value x) = clean_value x"
  by (simp add: clean_value_eq str_strip_lower str_strip_idem str_lower_idem)

lemma map_of_set_column_same: "map_of (set_column X name c) name = Some c"
  by (induction X name c rule: set_column.induct) auto

lemma names_set_column:
  "map_of X name \<noteq> None \<Longrightarrow> map fst (set_column X name c) = map fst X"
  by (induction X name c rule: set_column.induct) auto

lemma nth_set_column:
  "map_of X name \<noteq> None \<Longrightarrow> i < length X \<Longrightarrow> fst (X ! i) \<noteq> name \<Longrightarrow>
     set_column X name c ! i = X ! i"
proof (induction X name c arbitrary: i rule: set_column.induct)
  case (1 name c)
  then show ?case by simp
next
  case (2 k v X name c)
  then show ?case by (cases i) (auto split: if_splits)
qed

lemma clean_famhist_string_column:
  assumes "X < length s" and "get_column (s ! X) ''famhist'' = Inr (StrCol vs)"
  shows "clean_famhist s X =
           (s @ [set_column (s ! X) ''famhist'' (StrCol (map clean_value vs))], Inr (length s))"
  using assms by (simp add: clean_famhist_def frame_copy_def str_accessor_def nth_append)

text \<open>
  Claim C10. On a frame whose \<open>famhist\<close> column holds strings, \<open>clean_famhist\<close> raises
  nothing and returns a new frame: the store as it was before the call is a prefix of
  the store after it, so the caller's frame and every other frame are unchanged; the
  returned frame has the same column names in the same order, every column not named
  \<open>famhist\<close> exactly as given, and in \<open>famhist\<close> each value stripped and lowercased,
  whatever the value is.
\<close>

theorem clean_famhist_frame:
  assumes "X < length s" and "get_column (s ! X) ''famhist'' = Inr (StrCol vs)"
  shows "\<exists>s' Y. clean_famhist s X = (s', Inr Y) \<and>
           take (length s) s' = s \<and> Y \<noteq> X \<and> s' ! X = s ! X \<and>
           map fst (s' ! Y) = map fst (s ! X) \<and>
           (\<forall>i < length (s ! X). fst (s ! X ! i) \<noteq> ''famhist'' \<longrightarrow> s' ! Y ! i = s ! X ! i) \<and>
           get_column (s' ! Y) ''famhist'' =
             Inr (StrCol (map (\<lambda>v. str_lower (str_strip v)) vs))"
proof -
  let ?F = "set_column (s ! X) ''famhist'' (StrCol (map clean_value vs))"
  have present: "map_of (s ! X) ''famhist'' \<noteq> None"
    using assms(2) by (auto simp: get_column_def split: option.splits)
  have run: "clean_famhist s X = (s @ [?F], Inr (length s))"
    using assms by (rule clean_famhist_string_column)
  have "take (length s) (s @ [?F]) = s" by simp
  moreover have "length s \<noteq> X" using assms(1) by simp
  moreover have "(s @ [?F]) ! X = s ! X" using assms(1) by (simp add: nth_append)
  moreover have "map fst ((s @ [?F]) ! length s) = map fst (s ! X)"
    using present by (simp add: names_set_column)
  moreover have "\<forall>i < length (s ! X). fst (s ! X ! i) \<noteq> ''famhist'' \<longrightarrow>
                   (s @ [?F]) ! length s ! i = s ! X ! i"
    using present by (simp add: nth_set_column)
  moreover have "get_column ((s @ [?F]) ! length s) ''famhist'' =
                   Inr (StrCol (map (\<lambda>v. str_lower (str_strip v)) vs))"
    by (simp add: get_column_def map_of_set_column_same clean_value_eq)
  ultimately show ?thesis using run by blast
qed

theorem clean_famhist_frame_witness:
  "(0::nat) < length [two_patients] \<and>
   get_column ([two_patients] ! 0) ''famhist'' = Inr (StrCol [''  Present '', ''unknown'']) \<and>
   clean_famhist [two_patients] 0 =
     ([two_patients,
       [(''age'', IntCol [43, 61]),
        (''famhist'', StrCol [''present'', ''unknown'']),
        (''sbp'', IntCol [138, 120])]], Inr 1)"
proof -
  have a: "(0::nat) < length [two_patients]" by simp
  have b: "get_column ([two_patients] ! 0) ''famhist'' =
             Inr (StrCol [''  Present '', ''unknown''])"
    by (simp add: two_patients_def get_column_def)
  have c: "clean_famhist [two_patients] 0 =
     ([two_patients,
       [(''age'', IntCol [43, 61]),
        (''famhist'', StrCol [''present'', ''unknown'']),
        (''sbp'', IntCol [138, 120])]], Inr 1)"
    by code_simp
  from clean_famhist_frame [OF a b] a b c show ?thesis by simp
qed

section \<open>The loader\<close>

lemma load_model_try_absent:
  "d model_path = None \<Longrightarrow>
     load_model_try d w = (render [St_error (Fichier_Introuvable model_path)] w, Inr None)"
  by (simp add: load_model_try_def os_path_exists_def)

lemma load_model_try_present:
  "d model_path = Some a \<Longrightarrow> load_model_try d w = joblib_load d model_path w"
  by (simp add: load_model_try_def os_path_exists_def split: prod.splits sum.splits)

lemma load_model_fn_absent:
  "d model_path = None \<Longrightarrow>
     load_model_fn d w = (render [St_error (Fichier_Introuvable model_path)] w, Inr None)"
  by (simp add: load_model_fn_def load_model_try_absent)

lemma load_model_fn_corrupt:
  "d model_path = Some (Corrupt e) \<Longrightarrow>
     load_model_fn d w =
       (render [St_error (Erreur_Chargement e)] (w\<lparr>disk_reads := disk_reads w + 1\<rparr>), Inr None)"
  by (simp add: load_model_fn_def load_model_try_present joblib_load_def)

lemma load_model_fn_none:
  "d model_path = Some (Serialized None) \<Longrightarrow>
     load_model_fn d w = (w\<lparr>disk_reads := disk_reads w + 1\<rparr>, Inr None)"
  by (simp add: load_model_fn_def load_model_try_present joblib_load_def)

lemma load_model_fn_object:
  "d model_path = Some (Serialized (Some h)) \<Longrightarrow>
     load_model_fn d w =
       (w\<lparr>disk_reads := disk_reads w + 1, objects := objects w @ [h]\<rparr>,
        Inr (Some (length (objects w))))"
  by (simp add: load_model_fn_def load_model_try_present joblib_load_def)

lemmas load_model_fn_cases =
  load_model_fn_absent load_model_fn_corrupt load_model_fn_none load_model_fn_object

text \<open>The four states of the model's path on a disk.\<close>

lemma disk_cases:
  obtains "d model_path = None"
  | e where "d model_path = Some (Corrupt e)"
  | "d model_path = Some (Serialized None)"
  | h where "d model_path = Some (Serialized (Some h))"
proof (cases "d model_path")
  case None
  then show ?thesis using that by blast
next
  case (Some a)
  then show ?thesis
  proof (cases a)
    case (Corrupt e)
    with Some show ?thesis using that by blast
  next
    case (Serialized v)
    with Some show ?thesis using that by (cases v) auto
  qed
qed

lemma load_model_fn_returns:
  "\<exists>w' r. load_model_fn d w = (w', Inr r) \<and> cache w' = cache w \<and>
      disk_reads w' \<le> disk_reads w + 1 \<and> calls w' = calls w \<and>
      (objects w' = objects w \<or> (\<exists>h. objects w' = objects w @ [h]))"
  by (rule disk_cases [of d]) (simp_all add: load_model_fn_cases render_def)

lemma load_model_hit:
  "cache w = Some (r, shown) \<Longrightarrow> load_model d w = (render shown w, Inr r)"
  by (simp add: load_model_def)

lemma load_model_miss:
  assumes "cache w = None"
  shows "\<exists>w' r shown. load_model d w = (w', Inr r) \<and> cache w' = Some (r, shown) \<and>
      disk_reads w' \<le> disk_reads w + 1 \<and> calls w' = calls w \<and>
      (objects w' = objects w \<or> (\<exists>h. objects w' = objects w @ [h]))"
proof -
  from load_model_fn_returns [of d w] obtain w1 r where
    fn: "load_model_fn d w = (w1, Inr r)" and rest: "disk_reads w1 \<le> disk_reads w + 1"
    "calls w1 = calls w" "objects w1 = objects w \<or> (\<exists>h. objects w1 = objects w @ [h])"
    by blast
  from assms fn have "load_model d w =
      (w1\<lparr>cache := Some (r, drop (length (page w)) (page w1))\<rparr>, Inr r)"
    by (simp add: load_model_def)
  with rest show ?thesis by simp
qed

lemma load_model_returns: "\<exists>w' r. load_model d w = (w', Inr r)"
proof (cases "cache w")
  case None
  from load_model_miss [OF this, of d] show ?thesis by blast
next
  case (Some entry)
  then show ?thesis by (cases entry) (simp add: load_model_hit)
qed

text \<open>Once the cache has its entry, every later call gives the stored value and reads
  nothing.\<close>

lemma load_model_calls_hit:
  "cache w = Some (r, shown) \<Longrightarrow> load_model_calls ds w = (w', rs) \<Longrightarrow>
     rs = replicate (length ds) (Inr r) \<and> cache w' = cache w \<and>
     disk_reads w' = disk_reads w \<and> objects w' = objects w \<and> calls w' = calls w"
proof (induction ds arbitrary: w w' rs)
  case Nil
  then show ?case by simp
next
  case (Cons d ds)
  from Cons.prems(1) have step: "load_model d w = (render shown w, Inr r)"
    by (rule load_model_hit)
  obtain w2 rs2 where tl: "load_model_calls ds (render shown w) = (w2, rs2)"
    by (cases "load_model_calls ds (render shown w)")
  from Cons.prems(2) step tl have out: "w' = w2" "rs = Inr r # rs2" by simp_all
  from Cons.prems(1) have "cache (render shown w) = Some (r, shown)" by (simp add: render_def)
  from Cons.IH [OF this tl] out show ?case by (simp add: render_def)
qed

text \<open>
  Claim C4. The loader as written, on any disk and in any state of the process: with
  no file at the model's path it shows the error that names the path and returns
  \<open>None\<close>, reading nothing; with a file that cannot be deserialized it shows the
  error that carries the exception raised and returns \<open>None\<close>; with a pickled object it
  returns a reference to the new object. It returns a reference only in this last
  case, and neither it nor its cached form lets an exception out.
\<close>

theorem load_model_outcomes:
  "(d model_path = None \<longrightarrow>
      load_model_fn d w = (render [St_error (Fichier_Introuvable model_path)] w, Inr None)) \<and>
   (\<forall>e. d model_path = Some (Corrupt e) \<longrightarrow>
      load_model_fn d w =
        (render [St_error (Erreur_Chargement e)] (w\<lparr>disk_reads := disk_reads w + 1\<rparr>),
         Inr None)) \<and>
   (\<forall>h. d model_path = Some (Serialized (Some h)) \<longrightarrow>
      load_model_fn d w =
        (w\<lparr>disk_reads := disk_reads w + 1, objects := objects w @ [h]\<rparr>,
         Inr (Some (length (objects w))))) \<and>
   (\<forall>r. snd (load_model_fn d w) = Inr (Some r) \<longrightarrow>
      (\<exists>h. d model_path = Some (Serialized (Some h)) \<and>
           objects (fst (load_model_fn d w)) ! r = h)) \<and>
   (\<exists>r. snd (load_model_fn d w) = Inr r) \<and>
   (\<exists>r. snd (load_model d w) = Inr r)"
proof (intro conjI allI impI)
  show "\<exists>r. snd (load_model_fn d w) = Inr r"
    using load_model_fn_returns [of d w] by auto
  show "\<exists>r. snd (load_model d w) = Inr r"
    using load_model_returns [of d w] by auto
next
  fix r
  assume r: "snd (load_model_fn d w) = Inr (Some r)"
  show "\<exists>h. d model_path = Some (Serialized (Some h)) \<and>
          objects (fst (load_model_fn d w)) ! r = h"
    by (rule disk_cases [of d]; insert r; auto simp: load_model_fn_cases render_def)
qed (simp_all add: load_model_fn_cases)

theorem load_model_outcomes_witness:
  "load_model_fn (empty_disk :: unit disk) fresh_process =
     (\<lparr>objects = [], cache = None, disk_reads = 0, calls = [],
       page = [St_error (Fichier_Introuvable ''Model3.pkl'')]\<rparr>, Inr None) \<and>
   load_model_fn (disk_with (Corrupt (RaisedByArtifact ''truncated'')) :: unit disk)
       fresh_process =
     (\<lparr>objects = [], cache = None, disk_reads = 1, calls = [],
       page = [St_error (Erreur_Chargement (RaisedByArtifact ''truncated''))]\<rparr>, Inr None) \<and>
   load_model_fn (disk_with (Serialized (Some ()))) fresh_process =
     (\<lparr>objects = [()], cache = None, disk_reads = 1, calls = [], page = []\<rparr>, Inr (Some 0))"
  using load_model_outcomes [of "empty_disk :: unit disk" fresh_process]
    load_model_outcomes
      [of "disk_with (Corrupt (RaisedByArtifact ''truncated'')) :: unit disk" fresh_process]
    load_model_outcomes [of "disk_with (Serialized (Some ()))" fresh_process]
  by (simp add: empty_disk_def disk_with_def fresh_process_def render_def model_path_def)

text \<open>
  Claim C5. Over any sequence of calls of the loader, whatever the disk holds at each
  call, the artifact is read at most once, at most one model object is made, and every
  call returns the same value: the same reference, or \<open>None\<close> every time.
\<close>

theorem load_model_memoized:
  assumes "load_model_calls ds w = (w', rs)"
  shows "disk_reads w' \<le> disk_reads w + 1 \<and>
         (\<exists>r. rs = replicate (length ds) (Inr r)) \<and>
         (objects w' = objects w \<or> (\<exists>h. objects w' = objects w @ [h]))"
proof (cases ds)
  case Nil
  with assms show ?thesis by simp
next
  case (Cons d ds')
  show ?thesis
  proof (cases "cache w")
    case None
    from load_model_miss [OF None, of d] obtain w1 r shown where
      first: "load_model d w = (w1, Inr r)" and c1: "cache w1 = Some (r, shown)" and
      rest: "disk_reads w1 \<le> disk_reads w + 1"
        "objects w1 = objects w \<or> (\<exists>h. objects w1 = objects w @ [h])"
      by blast
    obtain w2 rs2 where tl: "load_model_calls ds' w1 = (w2, rs2)"
      by (cases "load_model_calls ds' w1")
    from assms Cons first tl have out: "w' = w2" "rs = Inr r # rs2" by simp_all
    from load_model_calls_hit [OF c1 tl] out rest Cons show ?thesis by auto
  next
    case (Some entry)
    obtain r shown where "entry = (r, shown)" by (cases entry)
    with Some have "cache w = Some (r, shown)" by simp
    from load_model_calls_hit [OF this assms] show ?thesis by auto
  qed
qed

theorem load_model_memoized_witness:
  "load_model_calls
       [disk_with (Serialized (Some ())), empty_disk, disk_with (Serialized (Some ()))]
       fresh_process =
     (\<lparr>objects = [()], cache = Some (Some 0, []), disk_reads = 1, calls = [], page = []\<rparr>,
      [Inr (Some 0), Inr (Some 0), Inr (Some 0)]) \<and>
   disk_reads \<lparr>objects = [()], cache = Some (Some 0, []), disk_reads = 1, calls = [],
       page = []\<rparr> \<le> disk_reads (fresh_process :: unit world) + 1"
proof -
  have run: "load_model_calls
       [disk_with (Serialized (Some ())), empty_disk, disk_with (Serialized (Some ()))]
       fresh_process =
     (\<lparr>objects = [()], cache = Some (Some 0, []), disk_reads = 1, calls = [], page = []\<rparr>,
      [Inr (Some 0), Inr (Some 0), Inr (Some 0)])"
    by code_simp
  from load_model_memoized [OF run] run show ?thesis by simp
qed

section \<open>The prediction\<close>

lemmas predict_try_simps =
  predict_try_def call_predict_def call_predict_proba_def render_def index_def

lemma py_max_Max: "xs \<noteq> [] \<Longrightarrow> py_max xs = Inr (Max (set xs))"
  by (cases xs) (simp_all add: py_max_def flip: Max.set_eq_fold)

subsection \<open>The outcomes of the guarded block\<close>

lemma predict_try_predict_raises:
  assumes "predict cls (objects w ! model) X = (h1, Inl e)"
  shows "predict_try cls model X w = (after w model h1 [Predict X] [St_spinner], Inl e)"
  using assms by (simp add: predict_try_simps)


lemma predict_try_proba_raises:
  assumes "model < length (objects w)"
    and "predict cls (objects w ! model) X = (h1, Inr (p # ps))"
    and "predict_proba cls h1 X = (h2, Inl e)"
  shows "predict_try cls model X w =
           (after w model h2 [Predict X, Predict_proba X] [St_spinner], Inl e)"
  using assms by (simp add: predict_try_simps)



lemma predict_try_shown:
  assumes "model < length (objects w)"
    and "predict cls (objects w ! model) X = (h1, Inr (p # ps))"
    and "predict_proba cls h1 X = (h2, Inr (proba # rows))"
    and "2 \<le> length proba"
  shows "predict_try cls model X w =
           (if 0 \<le> proba ! 1 \<and> proba ! 1 \<le> 1
            then (after w model h2 [Predict X, Predict_proba X]
                    (shown_result p proba @ [St_progress (proba ! 1)]), Inr ())
            else (after w model h2 [Predict X, Predict_proba X] (shown_result p proba),
                  Inl StreamlitAPIException))"
proof -
  from assms(4) have ne: "proba \<noteq> []" by auto
  from assms(4) have one: "1 < length proba" by simp
  show ?thesis
    using assms(1-3) one
    by (simp add: predict_try_simps py_max_Max [OF ne] st_progress_def Let_def)
qed

subsection \<open>The outcomes of the block with its handler\<close>

lemma predict_section_returns: "snd (predict_section cls model f w) = Inr ()"
  by (simp add: predict_section_def split: prod.splits sum.splits)

lemma predict_section_predict_raises:
  assumes "predict cls (objects w ! model) (input_data f) = (h1, Inl e)"
  shows "predict_section cls model f w =
           (after w model h1 [Predict (input_data f)]
              [St_spinner, St_error (Erreur_Prediction e)], Inr ())"
  by (simp add: predict_section_def predict_try_predict_raises [OF assms] render_def)


lemma predict_section_proba_raises:
  assumes "model < length (objects w)"
    and "predict cls (objects w ! model) (input_data f) = (h1, Inr (p # ps))"
    and "predict_proba cls h1 (input_data f) = (h2, Inl e)"
  shows "predict_section cls model f w =
           (after w model h2 [Predict (input_data f), Predict_proba (input_data f)]
              [St_spinner, St_error (Erreur_Prediction e)], Inr ())"
  by (simp add: predict_section_def predict_try_proba_raises [OF assms] render_def)



lemma predict_section_shown:
  assumes "model < length (objects w)"
    and "predict cls (objects w ! model) (input_data f) = (h1, Inr (p # ps))"
    and "predict_proba cls h1 (input_data f) = (h2, Inr (proba # rows))"
    and "2 \<le> length proba"
  shows "predict_section cls model f w =
           (after w model h2 [Predict (input_data f), Predict_proba (input_data f)]
              (shown_result p proba @
               [if 0 \<le> proba ! 1 \<and> proba ! 1 \<le> 1 then St_progress (proba ! 1)
                else St_error (Erreur_Prediction StreamlitAPIException)]), Inr ())"
  by (simp add: predict_section_def predict_try_shown [OF assms] render_def)





subsection \<open>A class with fixed answers\<close>

lemma constant_class_sel:
  "predict (constant_class ps rows) h X = (h, Inr ps)"
  "predict_proba (constant_class ps rows) h X = (h, Inr rows)"
  by (simp_all add: constant_class_def)

lemma constant_class_run:
  assumes "model < length (objects w)" and "2 \<le> length proba"
  shows "predict_section (constant_class (p # ps) (proba # rows)) model f w =
           (after w model () [Predict (input_data f), Predict_proba (input_data f)]
              (shown_result p proba @
               [if 0 \<le> proba ! 1 \<and> proba ! 1 \<le> 1 then St_progress (proba ! 1)
                else St_error (Erreur_Prediction StreamlitAPIException)]), Inr ())"
  by (rule predict_section_shown [OF assms(1) _ _ assms(2)])
     (simp_all add: constant_class_sel)

subsection \<open>What is shown, and what the model is given\<close>

text \<open>
  Claim C1. When both calls on a loaded model object return and the first row of the
  probabilities has at least two entries, the prediction lets no exception out and
  shows exactly this: as the probability of disease the entry at index 1 of that row,
  and as the confidence the greatest entry of the same row.
\<close>

theorem prediction_result_shown:
  assumes "model < length (objects w)"
    and "predict cls (objects w ! model) (input_data f) = (h1, Inr (prediction # ps))"
    and "predict_proba cls h1 (input_data f) = (h2, Inr (proba # rows))"
    and "2 \<le> length proba"
  shows "snd (predict_section cls model f w) = Inr () \<and>
         page (fst (predict_section cls model f w)) =
           page w @
           [St_spinner, St_text Rule, St_text Results_Heading,
            St_metric Prediction (if prediction = 1 then Risque_Eleve else Risque_Faible),
            St_metric Probabilite_CHD (Percent (proba ! 1)),
            St_metric Confiance (Percent (Max (set proba))),
            if prediction = 1 then St_error (Risque_Eleve_Detecte (proba ! 1))
            else St_success (Risque_Faible_Message (proba ! 1)),
            St_text Risk_Level_Heading,
            if 0 \<le> proba ! 1 \<and> proba ! 1 \<le> 1 then St_progress (proba ! 1)
            else St_error (Erreur_Prediction StreamlitAPIException)]"
  by (simp add: predict_section_shown [OF assms])

theorem prediction_result_shown_witness:
  "(0::nat) < length (objects (loaded_process ())) \<and>
   predict (constant_class [1] [ [3/10, 7/10] ]) (objects (loaded_process ()) ! 0)
       (input_data default_form) = ((), Inr [1]) \<and>
   predict_proba (constant_class [1] [ [3/10, 7/10] ]) () (input_data default_form) =
       ((), Inr [ [3/10, 7/10] ]) \<and>
   (2::nat) \<le> length [3/10, 7/10 :: real] \<and>
   page (fst (predict_section (constant_class [1] [ [3/10, 7/10] ]) 0 default_form
                (loaded_process ()))) =
     [St_spinner, St_text Rule, St_text Results_Heading,
      St_metric Prediction Risque_Eleve,
      St_metric Probabilite_CHD (Percent (7/10)),
      St_metric Confiance (Percent (7/10)),
      St_error (Risque_Eleve_Detecte (7/10)),
      St_text Risk_Level_Heading,
      St_progress (7/10)]"
proof -
  have a: "(0::nat) < length (objects (loaded_process ()))"
    by (simp add: loaded_process_def)
  have b: "predict (constant_class [1] [ [3/10, 7/10] ]) (objects (loaded_process ()) ! 0)
       (input_data default_form) = ((), Inr [1])"
    by (simp add: constant_class_sel)
  have c: "predict_proba (constant_class [1] [ [3/10, 7/10] ]) () (input_data default_form) =
       ((), Inr [ [3/10, 7/10] ])"
    by (simp add: constant_class_sel)
  have d: "(2::nat) \<le> length [3/10, 7/10 :: real]" by simp
  from prediction_result_shown [OF a b c d] a b c d show ?thesis
    by (simp add: loaded_process_def)
qed








subsection \<open>Exceptions of the model\<close>

text \<open>
  Claim C7. An exception that \<open>predict\<close> raises, or that \<open>predict_proba\<close> raises after
  \<open>predict\<close> returned a label, ends the prediction there: the error that carries the
  exception is shown, nothing of a result is shown, and no further call is made on the
  model. No exception leaves the prediction, and none leaves a run of the script.
\<close>

theorem model_exception_reported:
  "(\<forall>h1 e. predict cls (objects w ! model) (input_data f) = (h1, Inl e) \<longrightarrow>
      predict_section cls model f w =
        (after w model h1 [Predict (input_data f)]
           [St_spinner, St_error (Erreur_Prediction e)], Inr ())) \<and>
   (\<forall>h1 p ps h2 e. model < length (objects w) \<and>
      predict cls (objects w ! model) (input_data f) = (h1, Inr (p # ps)) \<and>
      predict_proba cls h1 (input_data f) = (h2, Inl e) \<longrightarrow>
      predict_section cls model f w =
        (after w model h2 [Predict (input_data f), Predict_proba (input_data f)]
           [St_spinner, St_error (Erreur_Prediction e)], Inr ())) \<and>
   snd (predict_section cls model f w) = Inr () \<and>
   snd (run_script cls d f submitted w) = Inr ()"
proof (intro conjI allI impI)
  show "snd (predict_section cls model f w) = Inr ()"
    by (rule predict_section_returns)
  show "snd (run_script cls d f submitted w) = Inr ()"
  proof -
    let ?w0 = "render [St_text Title, St_text Intro] (w\<lparr>page := []\<rparr>)"
    from load_model_returns [of d ?w0] obtain w1 r where l: "load_model d ?w0 = (w1, Inr r)"
      by blast
    show ?thesis
    proof (cases r)
      case None
      with l show ?thesis by (simp add: run_script_def)
    next
      case (Some m)
      let ?w2 = "render [St_text Patient_Heading, St_form] w1"
      from predict_section_returns [of cls m f ?w2] l Some show ?thesis
        by (cases "predict_section cls m f ?w2") (simp add: run_script_def Let_def)
    qed
  qed
qed (simp_all add: predict_section_predict_raises predict_section_proba_raises)

theorem model_exception_reported_witness:
  "predict (raising_class (RaisedByArtifact ''not fitted'')) (objects (loaded_process ()) ! 0)
       (input_data default_form) = ((), Inl (RaisedByArtifact ''not fitted'')) \<and>
   predict_section (raising_class (RaisedByArtifact ''not fitted'')) 0 default_form
       (loaded_process ()) =
     (\<lparr>objects = [()], cache = Some (Some 0, []), disk_reads = 1,
        calls = [Predict (input_data default_form)],
        page = [St_spinner, St_error (Erreur_Prediction (RaisedByArtifact ''not fitted''))]\<rparr>,
      Inr ())"
proof -
  have a: "predict (raising_class (RaisedByArtifact ''not fitted''))
       (objects (loaded_process ()) ! 0) (input_data default_form) =
       ((), Inl (RaisedByArtifact ''not fitted''))"
    by (simp add: raising_class_def)
  from model_exception_reported [of "raising_class (RaisedByArtifact ''not fitted'')"
      "loaded_process ()" 0 default_form] a
  show ?thesis by (simp add: loaded_process_def)
qed

subsection \<open>Determinism and effects\<close>





subsection \<open>The range of the confidence\<close>

text \<open>
  Claim C6, amended. For two entries that are not negative and whose sum is within
  \<open>eps\<close> of 1, the confidence, the greater of the two, lies between \<open>(1 - eps) / 2\<close> and
  \<open>1 + eps\<close>, so between 1/2 and 1 when the sum is exactly 1; and this confidence is
  what a prediction shows when the model returns these two entries as the first row of
  its probabilities.
\<close>

theorem confidence_bounds:
  assumes "0 \<le> p0" and "0 \<le> p1" and "\<bar>p0 + p1 - 1\<bar> \<le> eps"
    and "model < length (objects w)"
    and "predict cls (objects w ! model) (input_data f) = (h1, Inr (prediction # ps))"
    and "predict_proba cls h1 (input_data f) = (h2, Inr ([p0, p1] # rows))"
  shows "py_max [p0, p1] = Inr (max p1 p0) \<and>
         (1 - eps) / 2 \<le> max p1 p0 \<and> max p1 p0 \<le> 1 + eps \<and>
         St_metric Confiance (Percent (max p1 p0)) \<in>
           set (drop (length (page w)) (page (fst (predict_section cls model f w))))"
proof -
  have "Max (set [p0, p1]) = max p1 p0" by (simp add: max.commute)
  then have "St_metric Confiance (Percent (max p1 p0)) \<in>
      set (drop (length (page w)) (page (fst (predict_section cls model f w))))"
    by (simp add: predict_section_shown [OF assms(4-6)])
  with assms(1-3) show ?thesis by (auto simp: py_max_def max_def)
qed

theorem confidence_bounds_witness:
  "(0::real) \<le> 3/10 \<and> (0::real) \<le> 7/10 \<and> \<bar>3/10 + 7/10 - 1\<bar> \<le> (0::real) \<and>
   (0::nat) < length (objects (loaded_process ())) \<and>
   predict (constant_class [1] [ [3/10, 7/10] ]) (objects (loaded_process ()) ! 0)
       (input_data default_form) = ((), Inr [1]) \<and>
   predict_proba (constant_class [1] [ [3/10, 7/10] ]) () (input_data default_form) =
       ((), Inr [ [3/10, 7/10] ]) \<and>
   py_max [3/10, 7/10] = Inr (7/10) \<and> (1/2::real) \<le> 7/10 \<and> (7/10::real) \<le> 1"
proof -
  have a: "(0::real) \<le> 3/10" and b: "(0::real) \<le> 7/10"
    and c: "\<bar>3/10 + 7/10 - 1\<bar> \<le> (0::real)" by simp_all
  have d: "(0::nat) < length (objects (loaded_process ()))"
    by (simp add: loaded_process_def)
  have e: "predict (constant_class [1] [ [3/10, 7/10] ]) (objects (loaded_process ()) ! 0)
       (input_data default_form) = ((), Inr [1])"
    by (simp add: constant_class_sel)
  have g: "predict_proba (constant_class [1] [ [3/10, 7/10] ]) () (input_data default_form) =
       ((), Inr [ [3/10, 7/10] ])"
    by (simp add: constant_class_sel)
  from confidence_bounds [OF a b c d e g] a b c d e g show ?thesis by simp
qed

text \<open>
  Two entries of 0.4999996 are not negative and sum to 1 within a millionth, and a model
  that returns them gets a result shown whose confidence is below one half.
\<close>

theorem confidence_below_half:
  "(0::real) \<le> 1249999/2500000 \<and>
   \<bar>1249999/2500000 + 1249999/2500000 - 1\<bar> \<le> (1/1000000::real) \<and>
   py_max [1249999/2500000, 1249999/2500000] = Inr (1249999/2500000) \<and>
   \<not> (1/2 \<le> (1249999/2500000::real)) \<and>
   predict_section (constant_class [0] [ [1249999/2500000, 1249999/2500000] ]) 0
       default_form (loaded_process ()) =
     (\<lparr>objects = [()], cache = Some (Some 0, []), disk_reads = 1,
        calls = [Predict (input_data default_form), Predict_proba (input_data default_form)],
        page = [St_spinner, St_text Rule, St_text Results_Heading,
                St_metric Prediction Risque_Faible,
                St_metric Probabilite_CHD (Percent (1249999/2500000)),
                St_metric Confiance (Percent (1249999/2500000)),
                St_success (Risque_Faible_Message (1249999/2500000)),
                St_text Risk_Level_Heading,
                St_progress (1249999/2500000)]\<rparr>, Inr ())"
proof -
  have run: "predict_section (constant_class [0] [ [1249999/2500000, 1249999/2500000] ]) 0
       default_form (loaded_process ()) =
     (after (loaded_process ()) 0 ()
        [Predict (input_data default_form), Predict_proba (input_data default_form)]
        (shown_result 0 [1249999/2500000, 1249999/2500000] @
         [St_progress (1249999/2500000)]), Inr ())"
    by (subst constant_class_run) (simp_all add: loaded_process_def)
  show ?thesis
    by (simp add: run py_max_def) (simp add: loaded_process_def)
qed

end
